theory Spec2Isabelle
  imports Complex_Main
begin

section \<open>Data model (models/User.js, models/Match.js, models/Chat.js)\<close>

text \<open>
  A MongoDB ObjectId is unique across the whole database. No handler of the repository
  removes a document from the User, Match or Chat collection (unmatch and message
  deletion are soft), so a collection is a list that only grows and a document's id is
  the collection it lives in together with its position there.
\<close>

datatype objectId = UserId nat | MatchId nat | ChatId nat

text \<open>
  A request names a document by a string. \<open>toString\<close> of an ObjectId prints its 24
  hex digits in lower case (\<open>Canonical\<close>). The same digits with a letter in upper
  case (\<open>Respelled\<close>) are another string, which the ObjectId cast of a query and
  \<open>isMongoId\<close> read as the same id. Any other string (\<open>NotAnId\<close>) is no id: the cast
  throws and \<open>isMongoId\<close> fails.
\<close>

datatype idString = Canonical objectId | Respelled objectId | NotAnId

definition toString :: "objectId \<Rightarrow> idString" where
  "toString i = Canonical i"

fun castObjectId :: "idString \<Rightarrow> objectId option" where
  "castObjectId (Canonical i) = Some i"
| "castObjectId (Respelled i) = Some i"
| "castObjectId NotAnId = None"

fun isMongoId :: "idString \<Rightarrow> bool" where
  "isMongoId (Canonical i) = True"
| "isMongoId (Respelled i) = True"
| "isMongoId NotAnId = False"

text \<open>
  \<open>array.includes(obj)\<close> on a Mongoose array of ObjectIds compares \<open>obj\<close>, a string,
  with the string of each element; an ObjectId argument is turned into its string first,
  so for an id \<open>i\<close> the call is \<open>array_includes xs (toString i)\<close>.
\<close>

definition array_includes :: "objectId list \<Rightarrow> idString \<Rightarrow> bool" where
  "array_includes xs obj = list_ex (\<lambda>x. obj = toString x) xs"

text \<open>Timestamps (\<open>new Date()\<close>, \<open>Date.now\<close>) are milliseconds, handed to each handler as \<open>now\<close>.\<close>

type_synonym date = nat

text \<open>GeoJSON point: \<open>coordinates[0]\<close> is the longitude, \<open>coordinates[1]\<close> the latitude.\<close>

type_synonym point = "real \<times> real"

text \<open>
  userSchema, restricted to the fields that the discovery, matching, block and chat
  handlers read or write.
\<close>

record user =
  isActive :: bool
  isBlocked :: bool
  profileCompleted :: bool
  location :: "point option"
  isPremium :: bool
  premiumExpiresAt :: "date option"
  likes :: "objectId list"
  likedBy :: "objectId list"
  matches :: "objectId list"
  blocked :: "objectId list"
  blockedBy :: "objectId list"

text \<open>
  matchSchema. The fields \<open>users\<close> and \<open>isActive\<close> are written \<open>m_users\<close> and
  \<open>m_isActive\<close> here, since the user record and the database already use these names.
  \<open>unreadCount\<close> is a Map from the string of a user id to a Number.
\<close>

record match =
  m_users :: "objectId list"
  m_isActive :: bool
  lastMessageAt :: date
  unreadCount :: "objectId \<rightharpoonup> nat"

text \<open>chatSchema, with the \<open>createdAt\<close> of \<open>timestamps: true\<close>.\<close>

record chat =
  matchId :: objectId
  sender :: objectId
  message :: string
  messageType :: string
  isRead :: bool
  readAt :: "date option"
  isDeleted :: bool
  deletedAt :: "date option"
  createdAt :: date

record db =
  userColl :: "user list"
  matchColl :: "match list"
  chatColl :: "chat list"

text \<open>
  The HTTP failures of the routes: 400, 403, 404 with their message, and the 500
  \<open>Server error\<close> that every handler's \<open>catch\<close> answers with.
\<close>

datatype error = BadRequest string | Forbidden string | NotFound string | ServerError

section \<open>Store operations\<close>

fun User_findById :: "db \<Rightarrow> objectId \<Rightarrow> user option" where
  "User_findById s (UserId i) =
     (if i < length (userColl s) then Some (userColl s ! i) else None)"
| "User_findById s (MatchId i) = None"
| "User_findById s (ChatId i) = None"

text \<open>
  \<open>doc.save()\<close> and \<open>findByIdAndUpdate\<close> write the modified paths of one document and
  leave the others as stored; \<open>f\<close> is that write. An id that names no document
  changes nothing.
\<close>

fun User_update :: "db \<Rightarrow> objectId \<Rightarrow> (user \<Rightarrow> user) \<Rightarrow> db" where
  "User_update s (UserId i) f =
     (if i < length (userColl s)
      then s\<lparr>userColl := (userColl s)[i := f (userColl s ! i)]\<rparr> else s)"
| "User_update s (MatchId i) f = s"
| "User_update s (ChatId i) f = s"

fun Match_findById :: "db \<Rightarrow> objectId \<Rightarrow> match option" where
  "Match_findById s (MatchId i) =
     (if i < length (matchColl s) then Some (matchColl s ! i) else None)"
| "Match_findById s (UserId i) = None"
| "Match_findById s (ChatId i) = None"

fun Match_update :: "db \<Rightarrow> objectId \<Rightarrow> (match \<Rightarrow> match) \<Rightarrow> db" where
  "Match_update s (MatchId i) f =
     (if i < length (matchColl s)
      then s\<lparr>matchColl := (matchColl s)[i := f (matchColl s ! i)]\<rparr> else s)"
| "Match_update s (UserId i) f = s"
| "Match_update s (ChatId i) f = s"

fun Chat_findById :: "db \<Rightarrow> objectId \<Rightarrow> chat option" where
  "Chat_findById s (ChatId i) =
     (if i < length (chatColl s) then Some (chatColl s ! i) else None)"
| "Chat_findById s (UserId i) = None"
| "Chat_findById s (MatchId i) = None"

fun Chat_update :: "db \<Rightarrow> objectId \<Rightarrow> (chat \<Rightarrow> chat) \<Rightarrow> db" where
  "Chat_update s (ChatId i) f =
     (if i < length (chatColl s)
      then s\<lparr>chatColl := (chatColl s)[i := f (chatColl s ! i)]\<rparr> else s)"
| "Chat_update s (UserId i) f = s"
| "Chat_update s (MatchId i) f = s"

section \<open>Request validation (middleware/validation.js)\<close>

text \<open>
  Each validator is a check followed by \<open>handleValidationErrors\<close>, which answers 400
  \<open>Validation failed\<close> when the check has failed, before the handler runs.
\<close>

definition validationFailed :: error where
  "validationFailed = BadRequest ''Validation failed''"

text \<open>\<open>validateLikeDislike\<close>: \<open>body('targetUserId').isMongoId()\<close>.\<close>

definition validateLikeDislike :: "idString \<Rightarrow> bool" where
  "validateLikeDislike targetUserId = isMongoId targetUserId"

text \<open>
  The route parameters of a request, by name. \<open>validateObjectId\<close> is
  \<open>param('id').isMongoId()\<close>: it reads the parameter named \<open>id\<close>, and a parameter
  that the route does not have is no id.
\<close>

type_synonym params = "string \<rightharpoonup> idString"

definition validateObjectId :: "params \<Rightarrow> bool" where
  "validateObjectId ps = (case ps ''id'' of None \<Rightarrow> False | Some v \<Rightarrow> isMongoId v)"

text \<open>
  \<open>validatePagination\<close>: \<open>page\<close> and \<open>limit\<close> are optional; when given, \<open>page\<close> is an
  integer of at least 1 and \<open>limit\<close> an integer from 1 to 100. \<open>None\<close> is an absent
  query parameter; a given value that is no natural number fails as 0 does.
\<close>

definition validatePagination :: "nat option \<Rightarrow> nat option \<Rightarrow> bool" where
  "validatePagination page limit =
     ((case page of None \<Rightarrow> True | Some p \<Rightarrow> 1 \<le> p) \<and>
      (case limit of None \<Rightarrow> True | Some l \<Rightarrow> 1 \<le> l \<and> l \<le> 100))"

text \<open>The whitespace that \<open>trim()\<close> strips from both ends.\<close>

definition is_space :: "char \<Rightarrow> bool" where
  "is_space c = (c \<in> set [CHR '' '', CHR 0x09, CHR 0x0A, CHR 0x0B, CHR 0x0C, CHR 0x0D])"

definition trim :: "string \<Rightarrow> string" where
  "trim str = rev (dropWhile is_space (rev (dropWhile is_space str)))"

text \<open>
  \<open>validateChatMessage\<close>: the message is trimmed in the request body and must then have
  1 to 1000 characters; \<open>messageType\<close> is optional and, when given, one of four. The
  result is the trimmed message that the handler reads, or \<open>None\<close> for a failure.
\<close>

definition validateChatMessage :: "string \<Rightarrow> string option \<Rightarrow> string option" where
  "validateChatMessage msg ty =
     (let m = trim msg
      in if 1 \<le> length m \<and> length m \<le> 1000 \<and>
            (case ty of None \<Rightarrow> True
             | Some t \<Rightarrow> t \<in> set [''text'', ''image'', ''gif'', ''emoji''])
         then Some m else None)"

section \<open>Match model (models/Match.js)\<close>

text \<open>
  The \<open>pre('save')\<close> hook of matchSchema: exactly two users, and the two differ.
  It runs on \<open>Match.create\<close> and on every \<open>match.save()\<close>; when it fails the save
  throws and nothing is written.
\<close>

definition match_pre_save :: "match \<Rightarrow> bool" where
  "match_pre_save m =
     (if length (m_users m) \<noteq> 2 then False
      else if m_users m ! 0 = m_users m ! 1 then False
      else True)"

text \<open>\<open>this.users.find(user => !user.equals(userId))\<close>; \<open>None\<close> is JavaScript's undefined.\<close>

definition getOtherUser :: "match \<Rightarrow> objectId \<Rightarrow> objectId option" where
  "getOtherUser m userId = find (\<lambda>user. user \<noteq> userId) (m_users m)"

definition hasUser :: "match \<Rightarrow> objectId \<Rightarrow> bool" where
  "hasUser m userId = list_ex (\<lambda>user. user = userId) (m_users m)"

text \<open>\<open>this.unreadCount.get(userId.toString()) || 0\<close>\<close>

definition unreadOf :: "match \<Rightarrow> objectId \<Rightarrow> nat" where
  "unreadOf m userId = (case unreadCount m userId of None \<Rightarrow> 0 | Some c \<Rightarrow> c)"

definition incrementUnread :: "match \<Rightarrow> objectId \<Rightarrow> match" where
  "incrementUnread m userId =
     (let currentCount = unreadOf m userId
      in m\<lparr>unreadCount := (unreadCount m)(userId \<mapsto> currentCount + 1)\<rparr>)"

definition resetUnread :: "match \<Rightarrow> objectId \<Rightarrow> match" where
  "resetUnread m userId = m\<lparr>unreadCount := (unreadCount m)(userId \<mapsto> 0)\<rparr>"

text \<open>
  \<open>Match.create({users})\<close>: the schema defaults fill the other fields, the hook
  validates, and the new document goes to the end of the collection.
\<close>

definition Match_create :: "db \<Rightarrow> date \<Rightarrow> objectId list \<Rightarrow> (objectId \<times> db) option" where
  "Match_create s now us =
     (let m = \<lparr>m_users = us, m_isActive = True, lastMessageAt = now,
               unreadCount = Map.empty\<rparr>
      in if match_pre_save m
         then Some (MatchId (length (matchColl s)), s\<lparr>matchColl := matchColl s @ [m]\<rparr>)
         else None)"

section \<open>Matching (routes/discovery.js: like, dislike, super-like)\<close>

text \<open>
  The \<open>data\<close> of the like response: \<open>isMatch\<close>, and for a match its id with the two
  profiles, which are named by their ids here.
\<close>

record like_response =
  isMatch :: bool
  r_match :: "(objectId \<times> objectId list) option"

text \<open>
  The handler of POST /api/discovery/like. \<open>targetUserId\<close> is the string of the request
  body, \<open>currentUserId\<close> the id of the authenticated user. The self check and the
  already-liked check compare strings; \<open>findById\<close>, \<open>push\<close> and \<open>Match.create\<close> cast
  the string to the id it spells. \<open>currentUser\<close> and \<open>targetUser\<close> are the documents
  loaded by the two \<open>findById\<close> calls; each \<open>save()\<close> writes the array that was pushed
  to. A \<open>currentUser\<close> that is null makes \<open>currentUser.likes\<close> throw, which the
  \<open>catch\<close> turns into 500, as it does the cast error of a string that is no id.
\<close>

definition like_handler ::
  "db \<Rightarrow> date \<Rightarrow> objectId \<Rightarrow> idString \<Rightarrow> (error + like_response) \<times> db" where
  "like_handler s now currentUserId targetUserId =
     (if targetUserId = toString currentUserId
      then (Inl (BadRequest ''Cannot like yourself''), s)
      else case castObjectId targetUserId of
        None \<Rightarrow> (Inl ServerError, s)
      | Some targetId \<Rightarrow>
         (case User_findById s targetId of
            None \<Rightarrow> (Inl (NotFound ''User not found''), s)
          | Some targetUser \<Rightarrow>
              if \<not> isActive targetUser \<or> isBlocked targetUser
              then (Inl (BadRequest ''User is not available''), s)
              else case User_findById s currentUserId of
                None \<Rightarrow> (Inl ServerError, s)
              | Some currentUser \<Rightarrow>
                  if array_includes (likes currentUser) targetUserId
                  then (Inl (BadRequest ''Already liked this user''), s)
                  else
                    let s1 = User_update s currentUserId
                               (\<lambda>u. u\<lparr>likes := likes currentUser @ [targetId]\<rparr>)
                    in if array_includes (likes targetUser) (toString currentUserId)
                       then (case Match_create s1 now [currentUserId, targetId] of
                         None \<Rightarrow> (Inl ServerError, s1)
                       | Some (mid, s2) \<Rightarrow>
                           let s3 = User_update s2 currentUserId
                                      (\<lambda>u. u\<lparr>matches := matches currentUser @ [targetId]\<rparr>);
                               s4 = User_update s3 targetId
                                      (\<lambda>u. u\<lparr>matches := matches targetUser @ [currentUserId]\<rparr>)
                           in (Inr \<lparr>isMatch = True,
                                    r_match = Some (mid, [currentUserId, targetId])\<rparr>, s4))
                       else (Inr \<lparr>isMatch = False, r_match = None\<rparr>, s1)))"

text \<open>POST /api/discovery/like behind \<open>validateLikeDislike\<close>.\<close>

definition like :: "db \<Rightarrow> date \<Rightarrow> objectId \<Rightarrow> idString \<Rightarrow> (error + like_response) \<times> db" where
  "like s now currentUserId targetUserId =
     (if \<not> validateLikeDislike targetUserId then (Inl validationFailed, s)
      else like_handler s now currentUserId targetUserId)"

text \<open>
  The handler of POST /api/discovery/dislike; the filter compares each liked id's string
  with the request's string.
\<close>

definition dislike_handler :: "db \<Rightarrow> objectId \<Rightarrow> idString \<Rightarrow> (error + unit) \<times> db" where
  "dislike_handler s currentUserId targetUserId =
     (if targetUserId = toString currentUserId
      then (Inl (BadRequest ''Cannot dislike yourself''), s)
      else case castObjectId targetUserId of
        None \<Rightarrow> (Inl ServerError, s)
      | Some targetId \<Rightarrow>
         (case User_findById s targetId of
            None \<Rightarrow> (Inl (NotFound ''User not found''), s)
          | Some targetUser \<Rightarrow>
              (case User_findById s currentUserId of
                None \<Rightarrow> (Inl ServerError, s)
              | Some currentUser \<Rightarrow>
                  (Inr (), User_update s currentUserId
                     (\<lambda>u. u\<lparr>likes := filter (\<lambda>id. toString id \<noteq> targetUserId)
                                         (likes currentUser)\<rparr>)))))"

definition dislike :: "db \<Rightarrow> objectId \<Rightarrow> idString \<Rightarrow> (error + unit) \<times> db" where
  "dislike s currentUserId targetUserId =
     (if \<not> validateLikeDislike targetUserId then (Inl validationFailed, s)
      else dislike_handler s currentUserId targetUserId)"

definition isPremiumActive :: "user \<Rightarrow> date \<Rightarrow> bool" where
  "isPremiumActive u now =
     (if \<not> isPremium u then False
      else case premiumExpiresAt u of None \<Rightarrow> True | Some e \<Rightarrow> e > now)"

text \<open>
  The handler of POST /api/discovery/super-like. After the premium check it evaluates
  \<open>router.post('/like', protectUser, validateLikeDislike, req, res)\<close>. That is
  Express's route registration, not a call of the like handler: it is given the objects
  \<open>req\<close> and \<open>res\<close> where it takes callback functions and throws a TypeError, which
  the handler's \<open>catch\<close> answers with 500. Nothing is read from or written to the store
  after the premium check.
\<close>

definition superLike_handler ::
  "db \<Rightarrow> date \<Rightarrow> objectId \<Rightarrow> idString \<Rightarrow> (error + like_response) \<times> db" where
  "superLike_handler s now currentUserId targetUserId =
     (case User_findById s currentUserId of
        None \<Rightarrow> (Inl ServerError, s)
      | Some currentUser \<Rightarrow>
          if \<not> isPremiumActive currentUser now
          then (Inl (Forbidden ''Super like is a premium feature''), s)
          else (Inl ServerError, s))"

definition superLike ::
  "db \<Rightarrow> date \<Rightarrow> objectId \<Rightarrow> idString \<Rightarrow> (error + like_response) \<times> db" where
  "superLike s now currentUserId targetUserId =
     (if \<not> validateLikeDislike targetUserId then (Inl validationFailed, s)
      else superLike_handler s now currentUserId targetUserId)"

section \<open>Block and unblock (routes/users.js)\<close>

text \<open>
  POST /api/users/block/:userId; the route has no validator. \<open>targetUserId\<close> is the
  route parameter as written in the URL. The blocked check and the two filters compare
  strings; \<open>findById\<close> and \<open>push\<close> cast the string to the id it spells. One
  \<open>user.save()\<close> writes blocked, likes and matches.
\<close>

definition block :: "db \<Rightarrow> objectId \<Rightarrow> idString \<Rightarrow> (error + unit) \<times> db" where
  "block s currentUserId targetUserId =
     (if targetUserId = toString currentUserId
      then (Inl (BadRequest ''Cannot block yourself''), s)
      else case castObjectId targetUserId of
        None \<Rightarrow> (Inl ServerError, s)
      | Some targetId \<Rightarrow>
         (case User_findById s targetId of
            None \<Rightarrow> (Inl (NotFound ''User not found''), s)
          | Some targetUser \<Rightarrow>
              (case User_findById s currentUserId of
                None \<Rightarrow> (Inl ServerError, s)
              | Some usr \<Rightarrow>
                  let blocked' = (if \<not> array_includes (blocked usr) targetUserId
                                  then blocked usr @ [targetId] else blocked usr);
                      likes' = filter (\<lambda>id. toString id \<noteq> targetUserId) (likes usr);
                      matches' = filter (\<lambda>id. toString id \<noteq> targetUserId) (matches usr)
                  in (Inr (), User_update s currentUserId
                        (\<lambda>u. u\<lparr>blocked := blocked', likes := likes',
                                 matches := matches'\<rparr>)))))"

text \<open>DELETE /api/users/block/:userId.\<close>

definition unblock :: "db \<Rightarrow> objectId \<Rightarrow> idString \<Rightarrow> (error + unit) \<times> db" where
  "unblock s currentUserId targetUserId =
     (case User_findById s currentUserId of
        None \<Rightarrow> (Inl ServerError, s)
      | Some usr \<Rightarrow>
          (Inr (), User_update s currentUserId
             (\<lambda>u. u\<lparr>blocked := filter (\<lambda>id. toString id \<noteq> targetUserId) (blocked usr)\<rparr>)))"

section \<open>Discovery (routes/discovery.js)\<close>

text \<open>
  \<open>.skip((page - 1) * limit).limit(parseInt(limit))\<close> on a query result. Behind
  \<open>validatePagination\<close> the page is at least 1 and the limit from 1 to 100; outside
  that range the store refuses a negative skip (\<open>None\<close>: the query throws) and reads
  limit 0 as no limit.
\<close>

definition paginate :: "nat \<Rightarrow> nat \<Rightarrow> 'a list \<Rightarrow> 'a list option" where
  "paginate page limit xs =
     (if page = 0 \<and> limit \<noteq> 0 then None
      else let skip = (page - 1) * limit;
               rest = drop skip xs
           in Some (if limit = 0 then rest else take limit rest))"

text \<open>
  One entry of the discovery response: the selected profile and its distance. The
  distance is \<open>calculateDistance\<close> followed by \<open>Math.round(distance * 10) / 10\<close>, a
  computation in JavaScript's floating-point numbers, which are not modelled: the
  handler below takes it as the function \<open>distanceOf\<close> from the seeker's and the profile's
  coordinates to a number of type \<open>'n\<close>.
\<close>

record 'n discovered =
  d_id :: objectId
  d_location :: point
  distance :: 'n

record 'n discovery_response =
  d_users :: "'n discovered list"
  d_page :: nat
  d_limit :: nat
  d_hasMore :: bool

text \<open>
  The \<open>query\<close> object of the handler as a predicate on a stored user and its id:
  \<open>_id: {$ne, $nin}\<close>, the three flags, and \<open>$near\<close> with \<open>$maxDistance\<close>, which only a
  document that has a location can satisfy. \<open>geo\<close> is the store's distance in metres
  between two points (its 2dsphere index).
\<close>

definition discovery_query ::
  "(point \<Rightarrow> point \<Rightarrow> real) \<Rightarrow> objectId \<Rightarrow> user \<Rightarrow> point \<Rightarrow> real \<Rightarrow> objectId \<times> user \<Rightarrow> bool" where
  "discovery_query geo userId usr loc maxDistance = (\<lambda>(docId, doc).
     docId \<noteq> userId \<and>
     docId \<notin> set (likes usr @ blocked usr @ blockedBy usr) \<and>
     isActive doc \<and>
     \<not> isBlocked doc \<and>
     profileCompleted doc \<and>
     (case location doc of None \<Rightarrow> False
      | Some p \<Rightarrow> geo loc p \<le> maxDistance * 1000))"

text \<open>\<open>User.find(query)\<close>: the matching documents, nearest first as \<open>$near\<close> returns them.\<close>

definition User_find_near ::
  "(point \<Rightarrow> point \<Rightarrow> real) \<Rightarrow> db \<Rightarrow> point \<Rightarrow> (objectId \<times> user \<Rightarrow> bool) \<Rightarrow> (objectId \<times> user) list" where
  "User_find_near geo s loc q =
     sort_key (\<lambda>(docId, doc). case location doc of None \<Rightarrow> 0 | Some p \<Rightarrow> geo loc p)
       (filter q (zip (map UserId [0..<length (userColl s)]) (userColl s)))"

text \<open>
  GET /api/discovery behind \<open>validatePagination\<close>; \<open>page\<close> defaults to 1 and \<open>limit\<close>
  to 20. The handler writes nothing. Reading \<open>location.coordinates\<close> of a document
  without location would throw (\<open>None\<close> in the map over the page).
\<close>

definition discover ::
  "(point \<Rightarrow> point \<Rightarrow> real) \<Rightarrow> (point \<Rightarrow> point \<Rightarrow> 'n) \<Rightarrow> db \<Rightarrow> objectId \<Rightarrow>
   nat option \<Rightarrow> nat option \<Rightarrow> real \<Rightarrow> error + 'n discovery_response" where
  "discover geo distanceOf s userId page limit maxDistance =
     (if \<not> validatePagination page limit then Inl validationFailed
      else
        let page = (case page of None \<Rightarrow> 1 | Some p \<Rightarrow> p);
            limit = (case limit of None \<Rightarrow> 20 | Some l \<Rightarrow> l)
        in case User_findById s userId of
          None \<Rightarrow> Inl ServerError
        | Some usr \<Rightarrow>
            (case location usr of
               None \<Rightarrow> Inl (BadRequest ''Please update your location to discover users'')
             | Some loc \<Rightarrow>
                 (case paginate page limit
                         (User_find_near geo s loc
                            (discovery_query geo userId usr loc maxDistance)) of
                    None \<Rightarrow> Inl ServerError
                  | Some found \<Rightarrow>
                      (case those (map (\<lambda>(docId, doc).
                               case location doc of
                                 None \<Rightarrow> None
                               | Some p \<Rightarrow>
                                   Some \<lparr>d_id = docId, d_location = p, distance = distanceOf loc p\<rparr>)
                             found) of
                         None \<Rightarrow> Inl ServerError
                       | Some usersWithDistance \<Rightarrow>
                           Inr \<lparr>d_users = usersWithDistance, d_page = page, d_limit = limit,
                                d_hasMore = (length usersWithDistance = limit)\<rparr>))))"

section \<open>Chat model and conversation routes (models/Chat.js, routes/chats.js)\<close>

text \<open>chatSchema's validators: message required and at most 1000 characters, type in the enum.\<close>

definition chat_validate :: "string \<Rightarrow> string \<Rightarrow> bool" where
  "chat_validate msg ty =
     (msg \<noteq> [] \<and> length msg \<le> 1000 \<and> ty \<in> set [''text'', ''image'', ''gif'', ''emoji''])"

text \<open>
  \<open>Chat.create\<close>: validation, then the \<open>pre('save')\<close> hook of chatSchema, which sets the
  match's \<open>lastMessageAt\<close> in the store with \<open>findByIdAndUpdate\<close>, then the insert.
\<close>

definition Chat_create ::
  "db \<Rightarrow> date \<Rightarrow> objectId \<Rightarrow> objectId \<Rightarrow> string \<Rightarrow> string \<Rightarrow> (chat \<times> db) option" where
  "Chat_create s now mid senderId msg ty =
     (if \<not> chat_validate msg ty then None
      else let c = \<lparr>matchId = mid, sender = senderId, message = msg, messageType = ty,
                    isRead = False, readAt = None, isDeleted = False, deletedAt = None,
                    createdAt = now\<rparr>;
               s1 = Match_update s mid (\<lambda>m. m\<lparr>lastMessageAt := now\<rparr>)
           in Some (c, s1\<lparr>chatColl := chatColl s1 @ [c]\<rparr>))"

text \<open>
  The handler of POST /api/chats/:matchId. \<open>matchId\<close> is the route parameter, cast by
  the queries; \<open>messageType\<close> (here \<open>messageType'\<close>, as \<open>matchId'\<close> is the parameter \<open>matchId\<close>) defaults to \<open>text\<close>. \<open>mtch\<close> is the document loaded
  before the message is created; \<open>match.save()\<close> runs the hook on it and writes the one
  Map entry that \<open>incrementUnread\<close> set. When \<open>getOtherUser\<close> finds nobody,
  \<open>userId.toString()\<close> throws.
\<close>

definition send_handler ::
  "db \<Rightarrow> date \<Rightarrow> idString \<Rightarrow> objectId \<Rightarrow> string \<Rightarrow> string option \<Rightarrow> (error + chat) \<times> db" where
  "send_handler s now matchId' senderId msg messageType' =
     (case castObjectId matchId' of
        None \<Rightarrow> (Inl ServerError, s)
      | Some mid \<Rightarrow>
         (case Match_findById s mid of
            None \<Rightarrow> (Inl (NotFound ''Match not found''), s)
          | Some mtch \<Rightarrow>
              if \<not> m_isActive mtch then (Inl (NotFound ''Match not found''), s)
              else if \<not> hasUser mtch senderId
              then (Inl (Forbidden ''Not authorized to send message to this match''), s)
              else (case Chat_create s now mid senderId msg
                           (case messageType' of None \<Rightarrow> ''text'' | Some ty \<Rightarrow> ty) of
                      None \<Rightarrow> (Inl ServerError, s)
                    | Some (chatMessage, s1) \<Rightarrow>
                        (case getOtherUser mtch senderId of
                           None \<Rightarrow> (Inl ServerError, s1)
                         | Some otherUserId \<Rightarrow>
                             let mtch' = incrementUnread mtch otherUserId
                             in if \<not> match_pre_save mtch' then (Inl ServerError, s1)
                                else (Inr chatMessage,
                                      Match_update s1 mid (\<lambda>m. m\<lparr>unreadCount :=
                                        (unreadCount m)(otherUserId :=
                                           unreadCount mtch' otherUserId)\<rparr>))))))"

text \<open>
  POST /api/chats/:matchId as mounted: \<open>validateObjectId\<close>, then
  \<open>validateChatMessage\<close>, then the handler. The route's only parameter is \<open>matchId\<close>.
\<close>

definition send ::
  "db \<Rightarrow> date \<Rightarrow> idString \<Rightarrow> objectId \<Rightarrow> string \<Rightarrow> string option \<Rightarrow> (error + chat) \<times> db" where
  "send s now matchId' senderId msg messageType' =
     (if \<not> validateObjectId [''matchId'' \<mapsto> matchId'] then (Inl validationFailed, s)
      else case validateChatMessage msg messageType' of
        None \<Rightarrow> (Inl validationFailed, s)
      | Some trimmed \<Rightarrow> send_handler s now matchId' senderId trimmed messageType')"

text \<open>
  \<open>Chat.updateMany({matchId, sender: {$ne: userId}, isRead: false, isDeleted: false},
  {isRead: true, readAt: new Date()})\<close>
\<close>

definition Chat_markRead :: "db \<Rightarrow> date \<Rightarrow> objectId \<Rightarrow> objectId \<Rightarrow> db" where
  "Chat_markRead s now mid userId =
     s\<lparr>chatColl := map (\<lambda>c.
          if matchId c = mid \<and> sender c \<noteq> userId \<and> \<not> isRead c \<and> \<not> isDeleted c
          then c\<lparr>isRead := True, readAt := Some now\<rparr> else c) (chatColl s)\<rparr>"

record messages_response =
  messages :: "chat list"
  m_page :: nat
  m_limit :: nat
  m_hasMore :: bool

text \<open>
  The handler of GET /api/chats/:matchId; \<open>page\<close> defaults to 1 and \<open>limit\<close> to 50. The
  page is read newest first before the read flags are written, and returned reversed.
\<close>

definition listMessages_handler ::
  "db \<Rightarrow> date \<Rightarrow> idString \<Rightarrow> objectId \<Rightarrow> nat option \<Rightarrow> nat option \<Rightarrow>
   (error + messages_response) \<times> db" where
  "listMessages_handler s now matchId' userId page limit =
     (let page = (case page of None \<Rightarrow> 1 | Some p \<Rightarrow> p);
          limit = (case limit of None \<Rightarrow> 50 | Some l \<Rightarrow> l)
      in case castObjectId matchId' of
        None \<Rightarrow> (Inl ServerError, s)
      | Some mid \<Rightarrow>
         (case Match_findById s mid of
            None \<Rightarrow> (Inl (NotFound ''Match not found''), s)
          | Some mtch \<Rightarrow>
              if \<not> m_isActive mtch then (Inl (NotFound ''Match not found''), s)
              else if \<not> hasUser mtch userId
              then (Inl (Forbidden ''Not authorized to view this chat''), s)
              else (case paginate page limit
                           (sort_key (\<lambda>c. - int (createdAt c))
                              (filter (\<lambda>c. matchId c = mid \<and> \<not> isDeleted c) (chatColl s))) of
                      None \<Rightarrow> (Inl ServerError, s)
                    | Some msgs \<Rightarrow>
                        let s1 = Chat_markRead s now mid userId;
                            mtch' = resetUnread mtch userId
                        in if \<not> match_pre_save mtch' then (Inl ServerError, s1)
                           else (Inr \<lparr>messages = rev msgs, m_page = page, m_limit = limit,
                                       m_hasMore = (length msgs = limit)\<rparr>,
                                 Match_update s1 mid (\<lambda>m. m\<lparr>unreadCount :=
                                   (unreadCount m)(userId := unreadCount mtch' userId)\<rparr>)))))"

text \<open>
  GET /api/chats/:matchId as mounted: \<open>validateObjectId\<close>, then \<open>validatePagination\<close>,
  then the handler.
\<close>

definition listMessages ::
  "db \<Rightarrow> date \<Rightarrow> idString \<Rightarrow> objectId \<Rightarrow> nat option \<Rightarrow> nat option \<Rightarrow>
   (error + messages_response) \<times> db" where
  "listMessages s now matchId' userId page limit =
     (if \<not> validateObjectId [''matchId'' \<mapsto> matchId'] then (Inl validationFailed, s)
      else if \<not> validatePagination page limit then (Inl validationFailed, s)
      else listMessages_handler s now matchId' userId page limit)"

text \<open>The handler of PUT /api/chats/:matchId/read, and the route behind \<open>validateObjectId\<close>.\<close>

definition markRead_handler :: "db \<Rightarrow> date \<Rightarrow> idString \<Rightarrow> objectId \<Rightarrow> (error + unit) \<times> db" where
  "markRead_handler s now matchId' userId =
     (case castObjectId matchId' of
        None \<Rightarrow> (Inl ServerError, s)
      | Some mid \<Rightarrow>
         (case Match_findById s mid of
            None \<Rightarrow> (Inl (NotFound ''Match not found''), s)
          | Some mtch \<Rightarrow>
              if \<not> m_isActive mtch then (Inl (NotFound ''Match not found''), s)
              else if \<not> hasUser mtch userId
              then (Inl (Forbidden ''Not authorized to access this chat''), s)
              else let s1 = Chat_markRead s now mid userId;
                       mtch' = resetUnread mtch userId
                   in if \<not> match_pre_save mtch' then (Inl ServerError, s1)
                      else (Inr (),
                            Match_update s1 mid (\<lambda>m. m\<lparr>unreadCount :=
                              (unreadCount m)(userId := unreadCount mtch' userId)\<rparr>))))"

definition markRead :: "db \<Rightarrow> date \<Rightarrow> idString \<Rightarrow> objectId \<Rightarrow> (error + unit) \<times> db" where
  "markRead s now matchId' userId =
     (if \<not> validateObjectId [''matchId'' \<mapsto> matchId'] then (Inl validationFailed, s)
      else markRead_handler s now matchId' userId)"

text \<open>
  The handler of DELETE /api/chats/:matchId/messages/:messageId, with \<open>softDelete\<close> of
  chatSchema, and the route behind \<open>validateObjectId\<close>. The message's match is
  compared with the route parameter as strings.
\<close>

definition deleteMessage_handler ::
  "db \<Rightarrow> date \<Rightarrow> idString \<Rightarrow> idString \<Rightarrow> objectId \<Rightarrow> (error + unit) \<times> db" where
  "deleteMessage_handler s now matchId' messageId userId =
     (case castObjectId matchId' of
        None \<Rightarrow> (Inl ServerError, s)
      | Some mid \<Rightarrow>
         (case Match_findById s mid of
            None \<Rightarrow> (Inl (NotFound ''Match not found''), s)
          | Some mtch \<Rightarrow>
              if \<not> m_isActive mtch then (Inl (NotFound ''Match not found''), s)
              else if \<not> hasUser mtch userId
              then (Inl (Forbidden ''Not authorized to access this chat''), s)
              else (case castObjectId messageId of
                      None \<Rightarrow> (Inl ServerError, s)
                    | Some cid \<Rightarrow>
                       (case Chat_findById s cid of
                          None \<Rightarrow> (Inl (NotFound ''Message not found''), s)
                        | Some msg \<Rightarrow>
                            if toString (matchId msg) \<noteq> matchId'
                            then (Inl (NotFound ''Message not found''), s)
                            else if toString (sender msg) \<noteq> toString userId
                            then (Inl (Forbidden ''Not authorized to delete this message''), s)
                            else (Inr (), Chat_update s cid
                                    (\<lambda>c. c\<lparr>isDeleted := True, deletedAt := Some now\<rparr>))))))"

definition deleteMessage ::
  "db \<Rightarrow> date \<Rightarrow> idString \<Rightarrow> idString \<Rightarrow> objectId \<Rightarrow> (error + unit) \<times> db" where
  "deleteMessage s now matchId' messageId userId =
     (if \<not> validateObjectId [''matchId'' \<mapsto> matchId', ''messageId'' \<mapsto> messageId]
      then (Inl validationFailed, s)
      else deleteMessage_handler s now matchId' messageId userId)"

text \<open>
  The module routes/chats.js binds these names with \<open>require\<close> and \<open>const\<close>; it has no
  binding for \<open>User\<close>.
\<close>

definition chats_module_bindings :: "string list" where
  "chats_module_bindings =
     [''express'', ''router'', ''Chat'', ''Match'', ''protectUser'',
      ''validateChatMessage'', ''validatePagination'', ''validateObjectId'']"

record unread_response =
  unreadCounts :: "(objectId \<times> nat) list"
  totalUnread :: nat

text \<open>
  The statements of the GET /api/chats/unread/count handler, with \<open>User\<close> read as the
  model of models/User.js, as the other route modules bind it. \<open>populate('matches')\<close>
  resolves the ids of the user's \<open>matches\<close> array in the User collection (the field
  refers to User), so \<open>matchIds\<close> are the ids of those users; the aggregation counts,
  for each \<open>matchId\<close> among them, the unread messages that are not deleted and were
  sent by somebody else.
\<close>

definition unreadCount_body :: "db \<Rightarrow> objectId \<Rightarrow> error + unread_response" where
  "unreadCount_body s userId =
     (case User_findById s userId of
        None \<Rightarrow> Inl ServerError
      | Some usr \<Rightarrow>
          let matchIds = filter (\<lambda>i. User_findById s i \<noteq> None) (matches usr);
              unread = filter (\<lambda>c. matchId c \<in> set matchIds \<and> sender c \<noteq> userId \<and>
                                    \<not> isRead c \<and> \<not> isDeleted c) (chatColl s);
              counts = map (\<lambda>k. (k, length (filter (\<lambda>c. matchId c = k) unread)))
                         (remdups (map matchId unread))
          in Inr \<lparr>unreadCounts = counts, totalUnread = sum_list (map snd counts)\<rparr>)"

text \<open>
  GET /api/chats/unread/count as routes/chats.js has it. The first statement reads the
  identifier \<open>User\<close>, which the module does not bind: a ReferenceError, answered with
  500 by the \<open>catch\<close>.
\<close>

definition unreadCountHandler :: "db \<Rightarrow> objectId \<Rightarrow> error + unread_response" where
  "unreadCountHandler s userId =
     (if ''User'' \<in> set chats_module_bindings then unreadCount_body s userId
      else Inl ServerError)"

section \<open>Unmatch (routes/matches.js)\<close>

text \<open>
  The handler of DELETE /api/matches/:matchId. The two \<open>$pull\<close> updates act on the
  stored arrays; then \<open>match.save()\<close> runs the hook and writes \<open>isActive\<close>. A stored
  match has passed the hook, so \<open>getOtherUser\<close> finds the other user whenever
  \<open>hasUser\<close> holds; where it would not, the hook refuses the save.
\<close>

definition unmatch_handler :: "db \<Rightarrow> objectId \<Rightarrow> idString \<Rightarrow> (error + unit) \<times> db" where
  "unmatch_handler s userId matchId' =
     (case castObjectId matchId' of
        None \<Rightarrow> (Inl ServerError, s)
      | Some mid \<Rightarrow>
         (case Match_findById s mid of
            None \<Rightarrow> (Inl (NotFound ''Match not found''), s)
          | Some mtch \<Rightarrow>
              if \<not> hasUser mtch userId
              then (Inl (Forbidden ''Not authorized to unmatch this user''), s)
              else (case getOtherUser mtch userId of
                      None \<Rightarrow> (Inl ServerError, s)
                    | Some otherUserId \<Rightarrow>
                        let s1 = User_update s userId
                                   (\<lambda>u. u\<lparr>matches := filter (\<lambda>x. x \<noteq> otherUserId) (matches u)\<rparr>);
                            s2 = User_update s1 otherUserId
                                   (\<lambda>u. u\<lparr>matches := filter (\<lambda>x. x \<noteq> userId) (matches u)\<rparr>)
                        in if \<not> match_pre_save (mtch\<lparr>m_isActive := False\<rparr>)
                           then (Inl ServerError, s2)
                           else (Inr (), Match_update s2 mid (\<lambda>m. m\<lparr>m_isActive := False\<rparr>)))))"

text \<open>DELETE /api/matches/:matchId as mounted, behind \<open>validateObjectId\<close>.\<close>

definition unmatch :: "db \<Rightarrow> objectId \<Rightarrow> idString \<Rightarrow> (error + unit) \<times> db" where
  "unmatch s userId matchId' =
     (if \<not> validateObjectId [''matchId'' \<mapsto> matchId'] then (Inl validationFailed, s)
      else unmatch_handler s userId matchId')"

section \<open>Sequences of requests\<close>

text \<open>
  The requests to the routes that can write to the store, each with the authenticated
  caller first and the ids as the request spells them. \<open>protectUser\<close>
  (middleware/auth.js) lets a request through when the caller's document exists, is
  active and is not blocked.
\<close>

datatype request =
    Like objectId idString
  | Dislike objectId idString
  | SuperLike objectId idString
  | Block objectId idString
  | Unblock objectId idString
  | Send objectId idString string "string option"
  | ListMessages objectId idString "nat option" "nat option"
  | MarkRead objectId idString
  | DeleteMessage objectId idString idString
  | Unmatch objectId idString

fun caller :: "request \<Rightarrow> objectId" where
  "caller (Like u t) = u"
| "caller (Dislike u t) = u"
| "caller (SuperLike u t) = u"
| "caller (Block u t) = u"
| "caller (Unblock u t) = u"
| "caller (Send u m msg ty) = u"
| "caller (ListMessages u m p l) = u"
| "caller (MarkRead u m) = u"
| "caller (DeleteMessage u m c) = u"
| "caller (Unmatch u m) = u"

definition protectUser :: "db \<Rightarrow> objectId \<Rightarrow> bool" where
  "protectUser s userId =
     (case User_findById s userId of
        None \<Rightarrow> False
      | Some usr \<Rightarrow> \<not> (\<not> isActive usr \<or> isBlocked usr))"

fun dispatch :: "db \<Rightarrow> date \<Rightarrow> request \<Rightarrow> db" where
  "dispatch s now (Like u t) = snd (like s now u t)"
| "dispatch s now (Dislike u t) = snd (dislike s u t)"
| "dispatch s now (SuperLike u t) = snd (superLike s now u t)"
| "dispatch s now (Block u t) = snd (block s u t)"
| "dispatch s now (Unblock u t) = snd (unblock s u t)"
| "dispatch s now (Send u m msg ty) = snd (send s now m u msg ty)"
| "dispatch s now (ListMessages u m p l) = snd (listMessages s now m u p l)"
| "dispatch s now (MarkRead u m) = snd (markRead s now m u)"
| "dispatch s now (DeleteMessage u m c) = snd (deleteMessage s now m c u)"
| "dispatch s now (Unmatch u m) = snd (unmatch s u m)"

definition handle :: "db \<Rightarrow> date \<times> request \<Rightarrow> db" where
  "handle s tr = (if protectUser s (caller (snd tr)) then dispatch s (fst tr) (snd tr) else s)"

text \<open>Requests served one after the other, each with its time.\<close>

fun run :: "db \<Rightarrow> (date \<times> request) list \<Rightarrow> db" where
  "run s [] = s"
| "run s (tr # trs) = run (handle s tr) trs"

section \<open>Two like requests served at the same time\<close>

text \<open>
  The like route as a process: one step runs the code up to and including the next
  \<open>await\<close>, that is, one operation on the store. The process keeps the handler's
  local variables: the documents loaded by \<open>findById\<close>, the created match and, at the
  end, the response. \<open>Refused\<close> is an answer given before anything was written,
  \<open>Done\<close> an answer given after the like was saved.
\<close>

datatype like_pc = AtStart | HasTarget | HasCurrent | Liked | Matched | SavedOwn | Refused | Done

record like_proc =
  lp_pc :: like_pc
  lp_currentUserId :: objectId
  lp_targetUserId :: idString
  lp_targetUser :: "user option"
  lp_currentUser :: "user option"
  lp_match :: "objectId option"
  lp_response :: "(error + like_response) option"

definition like_start :: "objectId \<Rightarrow> idString \<Rightarrow> like_proc" where
  "like_start currentUserId targetUserId =
     \<lparr>lp_pc = AtStart, lp_currentUserId = currentUserId, lp_targetUserId = targetUserId,
      lp_targetUser = None, lp_currentUser = None, lp_match = None, lp_response = None\<rparr>"

definition refuse :: "like_proc \<Rightarrow> error \<Rightarrow> like_proc" where
  "refuse p e = p\<lparr>lp_pc := Refused, lp_response := Some (Inl e)\<rparr>"

definition finish :: "like_proc \<Rightarrow> error + like_response \<Rightarrow> like_proc" where
  "finish p r = p\<lparr>lp_pc := Done, lp_response := Some r\<rparr>"

text \<open>
  The steps: validation, self check and load of the target; checks on the target and
  load of the caller; already-liked check and save of the like; mutual check on the
  target as loaded and \<open>Match.create\<close>; the caller's \<open>save()\<close> and the target's
  \<open>save()\<close> of \<open>Promise.all\<close>. A \<open>save()\<close> after a \<open>push\<close> appends to the stored
  array (\<open>$push\<close>); when nothing else has written the document since it was loaded,
  that is the loaded array with the new element, as in \<open>like_handler\<close>.
\<close>

definition like_step :: "db \<Rightarrow> date \<Rightarrow> like_proc \<Rightarrow> db \<times> like_proc" where
  "like_step s now p =
     (let currentUserId = lp_currentUserId p;
          targetUserId = lp_targetUserId p
      in case lp_pc p of
        AtStart \<Rightarrow>
          if \<not> validateLikeDislike targetUserId then (s, refuse p validationFailed)
          else if targetUserId = toString currentUserId
          then (s, refuse p (BadRequest ''Cannot like yourself''))
          else (case castObjectId targetUserId of
                  None \<Rightarrow> (s, refuse p ServerError)
                | Some targetId \<Rightarrow>
                    (s, p\<lparr>lp_pc := HasTarget, lp_targetUser := User_findById s targetId\<rparr>))
      | HasTarget \<Rightarrow>
          (case lp_targetUser p of
             None \<Rightarrow> (s, refuse p (NotFound ''User not found''))
           | Some targetUser \<Rightarrow>
               if \<not> isActive targetUser \<or> isBlocked targetUser
               then (s, refuse p (BadRequest ''User is not available''))
               else (s, p\<lparr>lp_pc := HasCurrent,
                          lp_currentUser := User_findById s currentUserId\<rparr>))
      | HasCurrent \<Rightarrow>
          (case (lp_currentUser p, castObjectId targetUserId) of
             (Some currentUser, Some targetId) \<Rightarrow>
               if array_includes (likes currentUser) targetUserId
               then (s, refuse p (BadRequest ''Already liked this user''))
               else (User_update s currentUserId (\<lambda>u. u\<lparr>likes := likes u @ [targetId]\<rparr>),
                     p\<lparr>lp_pc := Liked\<rparr>)
           | _ \<Rightarrow> (s, refuse p ServerError))
      | Liked \<Rightarrow>
          (case (lp_targetUser p, castObjectId targetUserId) of
             (Some targetUser, Some targetId) \<Rightarrow>
               if array_includes (likes targetUser) (toString currentUserId)
               then (case Match_create s now [currentUserId, targetId] of
                       None \<Rightarrow> (s, finish p (Inl ServerError))
                     | Some (mid, s') \<Rightarrow> (s', p\<lparr>lp_pc := Matched, lp_match := Some mid\<rparr>))
               else (s, finish p (Inr \<lparr>isMatch = False, r_match = None\<rparr>))
           | _ \<Rightarrow> (s, finish p (Inl ServerError)))
      | Matched \<Rightarrow>
          (case castObjectId targetUserId of
             Some targetId \<Rightarrow>
               (User_update s currentUserId (\<lambda>u. u\<lparr>matches := matches u @ [targetId]\<rparr>),
                p\<lparr>lp_pc := SavedOwn\<rparr>)
           | None \<Rightarrow> (s, finish p (Inl ServerError)))
      | SavedOwn \<Rightarrow>
          (case (castObjectId targetUserId, lp_match p) of
             (Some targetId, Some mid) \<Rightarrow>
               (User_update s targetId (\<lambda>u. u\<lparr>matches := matches u @ [currentUserId]\<rparr>),
                finish p (Inr \<lparr>isMatch = True,
                               r_match = Some (mid, [currentUserId, targetId])\<rparr>))
           | _ \<Rightarrow> (s, finish p (Inl ServerError)))
      | Refused \<Rightarrow> (s, p)
      | Done \<Rightarrow> (s, p))"

text \<open>One request served alone: its six steps in a row.\<close>

definition like_alone ::
  "db \<Rightarrow> date \<Rightarrow> objectId \<Rightarrow> idString \<Rightarrow> (error + like_response) option \<times> db" where
  "like_alone s now currentUserId targetUserId =
     (case ((\<lambda>(s, p). like_step s now p) ^^ 6) (s, like_start currentUserId targetUserId) of
        (s', p') \<Rightarrow> (lp_response p', s'))"


section \<open>Example states\<close>

text \<open>A completed, active profile that has not liked, matched or blocked anybody.\<close>

definition profile :: user where
  "profile = \<lparr>isActive = True, isBlocked = False, profileCompleted = True,
              location = Some (0, 0), isPremium = False, premiumExpiresAt = None,
              likes = [], likedBy = [], matches = [], blocked = [], blockedBy = []\<rparr>"

text \<open>Three such profiles, A = \<open>UserId 0\<close>, B = \<open>UserId 1\<close> and C = \<open>UserId 2\<close>.\<close>

definition db_start :: db where
  "db_start = \<lparr>userColl = [profile, profile, profile], matchColl = [], chatColl = []\<rparr>"

text \<open>B has liked A.\<close>

definition db_liked :: db where
  "db_liked = \<lparr>userColl = [profile, profile\<lparr>likes := [UserId 0]\<rparr>, profile],
               matchColl = [], chatColl = []\<rparr>"

text \<open>A has then liked B: the two are matched.\<close>

definition db_matched :: db where
  "db_matched =
     \<lparr>userColl = [profile\<lparr>likes := [UserId 1], matches := [UserId 1]\<rparr>,
                  profile\<lparr>likes := [UserId 0], matches := [UserId 0]\<rparr>, profile],
      matchColl = [\<lparr>m_users = [UserId 0, UserId 1], m_isActive = True, lastMessageAt = 2,
                    unreadCount = Map.empty\<rparr>],
      chatColl = []\<rparr>"

text \<open>
  The store of \<open>db_matched\<close> holding in addition one message of B in the match, which A
  has not read.
\<close>

definition db_chatting :: db where
  "db_chatting =
     \<lparr>userColl = [profile\<lparr>likes := [UserId 1], matches := [UserId 1]\<rparr>,
                  profile\<lparr>likes := [UserId 0], matches := [UserId 0]\<rparr>, profile],
      matchColl = [\<lparr>m_users = [UserId 0, UserId 1], m_isActive = True, lastMessageAt = 3,
                    unreadCount = [UserId 0 \<mapsto> 1]\<rparr>],
      chatColl = [\<lparr>matchId = MatchId 0, sender = UserId 1, message = ''hi'',
                   messageType = ''text'', isRead = False, readAt = None,
                   isDeleted = False, deletedAt = None, createdAt = 3\<rparr>]\<rparr>"

text \<open>As \<open>db_start\<close>, with A a premium member.\<close>

definition db_premium :: db where
  "db_premium = \<lparr>userColl = [profile\<lparr>isPremium := True\<rparr>, profile, profile],
                 matchColl = [], chatColl = []\<rparr>"

section \<open>Properties of states\<close>



text \<open>User \<open>a\<close> exists and has \<open>b\<close> in its likes.\<close>

definition has_liked :: "db \<Rightarrow> objectId \<Rightarrow> objectId \<Rightarrow> bool" where
  "has_liked s a b =
     (case User_findById s a of None \<Rightarrow> False | Some u \<Rightarrow> b \<in> set (likes u))"






text \<open>
  Of a like process: it has not saved its like; the target it loaded has the caller in
  its likes.
\<close>

definition unsaved :: "like_proc \<Rightarrow> bool" where
  "unsaved p = (lp_pc p \<in> {AtStart, HasTarget, HasCurrent, Refused})"

definition sees_like :: "like_proc \<Rightarrow> bool" where
  "sees_like p =
     (case lp_targetUser p of
        None \<Rightarrow> False
      | Some d \<Rightarrow> lp_currentUserId p \<in> set (likes d))"



section \<open>Store lemmas\<close>

lemma User_update_frame [simp]:
  "matchColl (User_update s i f) = matchColl s"
  "chatColl (User_update s i f) = chatColl s"
  "length (userColl (User_update s i f)) = length (userColl s)"
  by (cases i; simp)+

lemma Match_update_frame [simp]:
  "userColl (Match_update s i f) = userColl s"
  "chatColl (Match_update s i f) = chatColl s"
  "length (matchColl (Match_update s i f)) = length (matchColl s)"
  by (cases i; simp)+

lemma Chat_update_frame [simp]:
  "userColl (Chat_update s i f) = userColl s"
  "matchColl (Chat_update s i f) = matchColl s"
  "length (chatColl (Chat_update s i f)) = length (chatColl s)"
  by (cases i; simp)+

lemma User_findById_update [simp]:
  "User_findById (User_update s i f) j =
     (if j = i then map_option f (User_findById s i) else User_findById s j)"
  by (cases i; cases j) auto

lemma Match_findById_update [simp]:
  "Match_findById (Match_update s i f) j =
     (if j = i then map_option f (Match_findById s i) else Match_findById s j)"
  by (cases i; cases j) auto

lemma User_findById_cong:
  "userColl s = userColl t \<Longrightarrow> User_findById s i = User_findById t i"
  by (cases i) auto

lemma Match_findById_cong:
  "matchColl s = matchColl t \<Longrightarrow> Match_findById s i = Match_findById t i"
  by (cases i) auto

lemma Match_findById_User_update [simp]:
  "Match_findById (User_update s i f) j = Match_findById s j"
  by (rule Match_findById_cong) simp

lemma User_findById_Match_update [simp]:
  "User_findById (Match_update s i f) j = User_findById s j"
  by (rule User_findById_cong) simp

lemma User_update_matchColl [simp]:
  "User_update (t\<lparr>matchColl := ms\<rparr>) i f = (User_update t i f)\<lparr>matchColl := ms\<rparr>"
  by (cases i) auto

lemma User_findById_matchColl [simp]:
  "User_findById (t\<lparr>matchColl := ms\<rparr>) i = User_findById t i"
  by (rule User_findById_cong) simp

lemma Match_update_chatColl [simp]:
  "Match_update (t\<lparr>chatColl := c\<rparr>) i f = (Match_update t i f)\<lparr>chatColl := c\<rparr>"
  by (cases i) auto

lemma User_update_same:
  assumes "User_findById s i = Some u" and "f u = u"
  shows "User_update s i f = s"
  using assms by (cases i) (auto split: if_splits)

text \<open>Strings of ids: \<open>toString\<close> is one to one, and no respelling is a \<open>toString\<close>.\<close>

lemma toString_eq [simp]:
  "toString i = toString j \<longleftrightarrow> i = j"
  "toString i = Canonical j \<longleftrightarrow> i = j"
  "Canonical j = toString i \<longleftrightarrow> i = j"
  "toString i \<noteq> Respelled j"
  "Respelled j \<noteq> toString i"
  "toString i \<noteq> NotAnId"
  "NotAnId \<noteq> toString i"
  by (auto simp: toString_def)

lemma castObjectId_toString [simp]: "castObjectId (toString i) = Some i"
  by (simp add: toString_def)

lemma castObjectId_Some:
  "castObjectId t = Some i \<longleftrightarrow> t = Canonical i \<or> t = Respelled i"
  by (cases t) auto

lemma array_includes_iff:
  "array_includes xs t \<longleftrightarrow> (\<exists>x\<in>set xs. t = toString x)"
  by (simp add: array_includes_def list_ex_iff)

lemma array_includes_toString [simp]: "array_includes xs (toString i) \<longleftrightarrow> i \<in> set xs"
  by (auto simp: array_includes_iff)

lemma array_includes_Canonical [simp]: "array_includes xs (Canonical i) \<longleftrightarrow> i \<in> set xs"
  by (auto simp: array_includes_iff)

lemma array_includes_other [simp]:
  "\<not> array_includes xs (Respelled i)" "\<not> array_includes xs NotAnId"
  by (auto simp: array_includes_iff)

text \<open>The example states are reached from \<open>db_start\<close> by requests.\<close>

lemma db_liked_reached:
  "run db_start [(1, Like (UserId 1) (Canonical (UserId 0)))] = db_liked"
  by (simp add: db_start_def db_liked_def handle_def protectUser_def like_def like_handler_def
        validateLikeDislike_def profile_def Let_def)

lemma db_matched_reached:
  "run db_liked [(2, Like (UserId 0) (Canonical (UserId 1)))] = db_matched"
  by (simp add: db_liked_def db_matched_def handle_def protectUser_def like_def like_handler_def
        validateLikeDislike_def profile_def Match_create_def match_pre_save_def Let_def)

section \<open>Mutual like\<close>

lemma like_result:
  assumes "castObjectId t = Some B" and "A \<noteq> B"
    and "User_findById s A = Some ua"
    and "User_findById s B = Some ub"
    and "isActive ub" and "\<not> isBlocked ub"
    and "B \<notin> set (likes ua)"
  shows "like s now A t =
     (if A \<in> set (likes ub)
      then (Inr \<lparr>isMatch = True, r_match = Some (MatchId (length (matchColl s)), [A, B])\<rparr>,
            User_update
              (User_update
                 ((User_update s A (\<lambda>u. u\<lparr>likes := likes ua @ [B]\<rparr>))
                    \<lparr>matchColl := matchColl s @
                       [\<lparr>m_users = [A, B], m_isActive = True, lastMessageAt = now,
                         unreadCount = Map.empty\<rparr>]\<rparr>)
                 A (\<lambda>u. u\<lparr>matches := matches ua @ [B]\<rparr>))
              B (\<lambda>u. u\<lparr>matches := matches ub @ [A]\<rparr>))
      else (Inr \<lparr>isMatch = False, r_match = None\<rparr>,
            User_update s A (\<lambda>u. u\<lparr>likes := likes ua @ [B]\<rparr>)))"
  using assms
  by (auto simp: like_def like_handler_def validateLikeDislike_def castObjectId_Some
        Match_create_def match_pre_save_def Let_def)

text \<open>
  C1. A and B are distinct existing users, B is active and not blocked, and B is not yet
  in A's likes; the request may spell B's id in either way. Then the like of A for B
  puts B at the end of A's likes. If A is in B's likes, it creates a match with users
  \<open>[A, B]\<close>, puts each at the end of the other's matches and answers
  \<open>isMatch = True\<close> with the match; otherwise it answers \<open>isMatch = False\<close>, creates
  no match and leaves B's document as it is.
\<close>

theorem like_succeeds:
  assumes "castObjectId t = Some B" and "A \<noteq> B"
    and "User_findById s A = Some ua"
    and "User_findById s B = Some ub"
    and "isActive ub" and "\<not> isBlocked ub"
    and "B \<notin> set (likes ua)"
  shows "case like s now A t of (res, s') \<Rightarrow>
     User_findById s' A =
        Some (if A \<in> set (likes ub)
              then ua\<lparr>likes := likes ua @ [B], matches := matches ua @ [B]\<rparr>
              else ua\<lparr>likes := likes ua @ [B]\<rparr>) \<and>
     User_findById s' B =
        Some (if A \<in> set (likes ub) then ub\<lparr>matches := matches ub @ [A]\<rparr> else ub) \<and>
     (if A \<in> set (likes ub)
      then res = Inr \<lparr>isMatch = True,
                     r_match = Some (MatchId (length (matchColl s)), [A, B])\<rparr> \<and>
           matchColl s' = matchColl s @
             [\<lparr>m_users = [A, B], m_isActive = True, lastMessageAt = now,
               unreadCount = Map.empty\<rparr>]
      else res = Inr \<lparr>isMatch = False, r_match = None\<rparr> \<and> matchColl s' = matchColl s)"
  unfolding like_result [OF assms]
  using assms(2,3,4) by simp

theorem like_succeeds_witness:
  "case like db_liked 2 (UserId 0) (Canonical (UserId 1)) of (res, s') \<Rightarrow>
     res = Inr \<lparr>isMatch = True, r_match = Some (MatchId 0, [UserId 0, UserId 1])\<rparr> \<and>
     User_findById s' (UserId 0) = Some (profile\<lparr>likes := [UserId 1], matches := [UserId 1]\<rparr>) \<and>
     User_findById s' (UserId 1) = Some (profile\<lparr>likes := [UserId 0], matches := [UserId 0]\<rparr>) \<and>
     matchColl s' = [\<lparr>m_users = [UserId 0, UserId 1], m_isActive = True, lastMessageAt = 2,
                      unreadCount = Map.empty\<rparr>]"
proof -
  have h: "castObjectId (Canonical (UserId 1)) = Some (UserId 1)"
    "UserId 0 \<noteq> UserId 1"
    "User_findById db_liked (UserId 0) = Some profile"
    "User_findById db_liked (UserId 1) = Some (profile\<lparr>likes := [UserId 0]\<rparr>)"
    "isActive (profile\<lparr>likes := [UserId 0]\<rparr>)"
    "\<not> isBlocked (profile\<lparr>likes := [UserId 0]\<rparr>)"
    "UserId 1 \<notin> set (likes profile)"
    by (simp_all add: db_liked_def profile_def)
  show ?thesis
    using like_succeeds [OF h, of 2]
    by (auto simp: db_liked_def profile_def split: prod.splits if_splits)
qed


section \<open>What discovery leaves out\<close>

lemma those_map_Some:
  assumes "\<forall>x\<in>set xs. \<exists>y. f x = Some y"
  shows "\<exists>ys. those (map f xs) = Some ys \<and> (\<forall>y\<in>set ys. \<exists>x\<in>set xs. f x = Some y)"
  using assms
proof (induction xs)
  case Nil
  then show ?case by simp
next
  case (Cons x xs)
  then obtain y where y: "f x = Some y" by auto
  from Cons obtain ys where ys: "those (map f xs) = Some ys"
    "\<forall>y\<in>set ys. \<exists>x\<in>set xs. f x = Some y" by auto
  show ?case using y ys by auto
qed

lemma paginate_subset:
  "paginate page limit xs = Some ys \<Longrightarrow> set ys \<subseteq> set xs"
  by (auto simp: paginate_def Let_def split: if_splits dest: in_set_takeD in_set_dropD)

lemma paginate_defined:
  "1 \<le> page \<Longrightarrow> \<exists>ys. paginate page limit xs = Some ys"
  by (simp add: paginate_def Let_def)

lemma validatePagination_page:
  "validatePagination page limit \<Longrightarrow> 1 \<le> (case page of None \<Rightarrow> 1 | Some p \<Rightarrow> p)"
  by (simp add: validatePagination_def split: option.splits)

lemma userColl_zip_findById:
  assumes "(docId, doc) \<in> set (zip (map UserId [0..<length (userColl s)]) (userColl s))"
  shows "User_findById s docId = Some doc"
  using assms by (auto simp: in_set_zip)

lemma User_find_near_sound:
  assumes "(docId, doc) \<in> set (User_find_near geo s loc q)"
  shows "q (docId, doc) \<and> User_findById s docId = Some doc"
  using assms by (auto simp: User_find_near_def userColl_zip_findById)

text \<open>
  C3. For a seeker that has a location, and page and limit as the pagination validator
  admits them, discovery answers with a list in which no entry is the seeker, no entry
  is in the seeker's likes, blocked or blockedBy lists, and every entry is a stored
  profile that is active, not blocked and profile-complete. This holds whatever the
  store's distance and the distance annotation are.
\<close>

theorem discover_excludes:
  assumes "User_findById s U = Some usr"
    and "location usr = Some loc"
    and "validatePagination page limit"
  shows "\<exists>r. discover geo distanceOf s U page limit maxDistance = Inr r \<and>
     (\<forall>d\<in>set (d_users r).
        d_id d \<noteq> U \<and>
        d_id d \<notin> set (likes usr) \<and>
        d_id d \<notin> set (blocked usr) \<and>
        d_id d \<notin> set (blockedBy usr) \<and>
        (\<exists>doc. User_findById s (d_id d) = Some doc \<and>
               isActive doc \<and> \<not> isBlocked doc \<and> profileCompleted doc))"
proof -
  let ?page = "case page of None \<Rightarrow> 1 | Some p \<Rightarrow> p"
  let ?limit = "case limit of None \<Rightarrow> 20 | Some l \<Rightarrow> l"
  let ?q = "discovery_query geo U usr loc maxDistance"
  let ?f = "\<lambda>(docId, doc).
              case location doc of
                None \<Rightarrow> None
              | Some p \<Rightarrow> Some \<lparr>d_id = docId, d_location = p, distance = distanceOf loc p\<rparr>"
  obtain found where found: "paginate ?page ?limit (User_find_near geo s loc ?q) = Some found"
    using paginate_defined [OF validatePagination_page [OF assms(3)]] by blast
  have sound: "?q (docId, doc) \<and> User_findById s docId = Some doc"
    if "(docId, doc) \<in> set found" for docId doc
    using that paginate_subset [OF found] User_find_near_sound by blast
  have "\<forall>x\<in>set found. \<exists>y. ?f x = Some y"
  proof
    fix x assume x: "x \<in> set found"
    obtain docId doc where xd: "x = (docId, doc)" by (cases x)
    from sound [of docId doc] x xd obtain p where "location doc = Some p"
      by (auto simp: discovery_query_def split: option.splits)
    then show "\<exists>y. ?f x = Some y" by (simp add: xd)
  qed
  from those_map_Some [OF this] obtain us where
    us: "those (map ?f found) = Some us"
    and src: "\<forall>y\<in>set us. \<exists>x\<in>set found. ?f x = Some y" by blast
  let ?r = "\<lparr>d_users = us, d_page = ?page, d_limit = ?limit,
             d_hasMore = (length us = ?limit)\<rparr>"
  have res: "discover geo distanceOf s U page limit maxDistance = Inr ?r"
    using assms found us by (simp add: discover_def Let_def)
  have "d_id d \<noteq> U \<and>
        d_id d \<notin> set (likes usr) \<and>
        d_id d \<notin> set (blocked usr) \<and>
        d_id d \<notin> set (blockedBy usr) \<and>
        (\<exists>doc. User_findById s (d_id d) = Some doc \<and>
               isActive doc \<and> \<not> isBlocked doc \<and> profileCompleted doc)"
    if "d \<in> set us" for d
  proof -
    from src that obtain x where x: "x \<in> set found" "?f x = Some d" by blast
    obtain docId doc where xd: "x = (docId, doc)" by (cases x)
    from x(2) have id: "d_id d = docId"
      by (auto simp: xd split: option.splits)
    from sound [of docId doc] x(1) xd show ?thesis
      by (auto simp: id discovery_query_def)
  qed
  with res show ?thesis by auto
qed

theorem discover_excludes_witness:
  "\<exists>r. discover (\<lambda>p q. 0) (\<lambda>p q. 0::nat) db_liked (UserId 1) (Some 1) (Some 20) 50 = Inr r \<and>
       map d_id (d_users r) = [UserId 2]"
proof -
  have h: "User_findById db_liked (UserId 1) = Some (profile\<lparr>likes := [UserId 0]\<rparr>)"
    "location (profile\<lparr>likes := [UserId 0]\<rparr>) = Some (0, 0)"
    "validatePagination (Some 1) (Some 20)"
    by (simp_all add: db_liked_def profile_def validatePagination_def)
  show ?thesis
    using discover_excludes [OF h, of "\<lambda>p q. 0" "\<lambda>p q. 0::nat" 50]
    by (simp add: discover_def db_liked_def profile_def paginate_def User_find_near_def
          discovery_query_def validatePagination_def Let_def)
qed


section \<open>Routes behind \<open>validateObjectId\<close>\<close>

text \<open>
  The routes of routes/chats.js and routes/matches.js name their parameter \<open>matchId\<close>
  (and \<open>messageId\<close>); \<open>validateObjectId\<close> reads the parameter \<open>id\<close>. So the validator
  fails on every request to them, whatever it carries.
\<close>

lemma validateObjectId_matchId [simp]:
  "\<not> validateObjectId [''matchId'' \<mapsto> m]"
  "\<not> validateObjectId [''matchId'' \<mapsto> m, ''messageId'' \<mapsto> c]"
  by (simp_all add: validateObjectId_def)

lemma send_refused: "send s now m u msg ty = (Inl validationFailed, s)"
  by (simp add: send_def)

lemma listMessages_refused: "listMessages s now m u page limit = (Inl validationFailed, s)"
  by (simp add: listMessages_def)

lemma markRead_refused: "markRead s now m u = (Inl validationFailed, s)"
  by (simp add: markRead_def)

lemma deleteMessage_refused: "deleteMessage s now m c u = (Inl validationFailed, s)"
  by (simp add: deleteMessage_def)

lemma unmatch_refused: "unmatch s u m = (Inl validationFailed, s)"
  by (simp add: unmatch_def)

section \<open>Unread counters\<close>

lemma match_pre_save_update [simp]:
  "match_pre_save (m\<lparr>unreadCount := c\<rparr>) = match_pre_save m"
  "match_pre_save (m\<lparr>m_isActive := b\<rparr>) = match_pre_save m"
  "match_pre_save (m\<lparr>lastMessageAt := t\<rparr>) = match_pre_save m"
  "match_pre_save (incrementUnread m u) = match_pre_save m"
  "match_pre_save (resetUnread m u) = match_pre_save m"
  by (simp_all add: match_pre_save_def incrementUnread_def resetUnread_def Let_def)

lemma pre_save_pair:
  assumes "match_pre_save m"
  shows "\<exists>a b. m_users m = [a, b] \<and> a \<noteq> b"
proof -
  from assms have l: "length (m_users m) = 2" and d: "m_users m ! 0 \<noteq> m_users m ! 1"
    by (auto simp: match_pre_save_def split: if_splits)
  from l obtain a b where "m_users m = [a, b]"
    by (auto simp: numeral_2_eq_2 length_Suc_conv)
  with d show ?thesis by auto
qed

lemma other_participant:
  assumes "match_pre_save m" and "hasUser m U"
  shows "\<exists>other. getOtherUser m U = Some other \<and> other \<noteq> U \<and> hasUser m other"
proof -
  from pre_save_pair [OF assms(1)] obtain a b where "m_users m = [a, b]" "a \<noteq> b"
    by blast
  with assms(2) show ?thesis
    by (auto simp: getOtherUser_def hasUser_def)
qed

lemma Chat_markRead_frame [simp]:
  "userColl (Chat_markRead s now mid U) = userColl s"
  "matchColl (Chat_markRead s now mid U) = matchColl s"
  "length (chatColl (Chat_markRead s now mid U)) = length (chatColl s)"
  by (simp_all add: Chat_markRead_def)

lemma Chat_markRead_reads:
  assumes "i < length (chatColl s)"
    and "matchId (chatColl s ! i) = mid"
    and "sender (chatColl s ! i) \<noteq> U"
    and "\<not> isDeleted (chatColl s ! i)"
  shows "isRead (chatColl (Chat_markRead s now mid U) ! i)"
  using assms by (simp add: Chat_markRead_def)

text \<open>
  What the two handlers would do if a request reached them: in an active, well-formed
  match a message of U raises the other participant's counter by one and sets
  \<open>lastMessageAt\<close>; listing as U sets U's counter to 0 and marks the messages of
  others as read.
\<close>

lemma send_handler_effect:
  assumes "castObjectId m = Some mid"
    and "Match_findById s mid = Some mtch"
    and "m_isActive mtch" and "match_pre_save mtch" and "hasUser mtch U"
    and "chat_validate msg (case ty of None \<Rightarrow> ''text'' | Some t \<Rightarrow> t)"
    and "getOtherUser mtch U = Some other"
  shows "send_handler s now m U msg ty =
     (Inr \<lparr>matchId = mid, sender = U, message = msg,
            messageType = (case ty of None \<Rightarrow> ''text'' | Some t \<Rightarrow> t),
            isRead = False, readAt = None, isDeleted = False, deletedAt = None,
            createdAt = now\<rparr>,
      (Match_update s mid (\<lambda>m. m\<lparr>lastMessageAt := now,
          unreadCount := (unreadCount m)(other \<mapsto> unreadOf mtch other + 1)\<rparr>))
       \<lparr>chatColl := chatColl s @
          [\<lparr>matchId = mid, sender = U, message = msg,
            messageType = (case ty of None \<Rightarrow> ''text'' | Some t \<Rightarrow> t),
            isRead = False, readAt = None, isDeleted = False, deletedAt = None,
            createdAt = now\<rparr>]\<rparr>)"
proof -
  obtain i where mid: "mid = MatchId i" and i: "i < length (matchColl s)"
    and m: "matchColl s ! i = mtch"
    using assms(2) by (cases mid) (auto split: if_splits)
  show ?thesis
    using assms i m
    by (simp add: send_handler_def Chat_create_def mid Let_def incrementUnread_def)
qed

lemma listMessages_handler_effect:
  assumes "castObjectId m = Some mid"
    and "Match_findById s mid = Some mtch"
    and "m_isActive mtch" and "match_pre_save mtch" and "hasUser mtch U"
    and "validatePagination page limit"
  shows "\<exists>r. listMessages_handler s now m U page limit =
     (Inr r, Match_update (Chat_markRead s now mid U) mid
               (\<lambda>m. m\<lparr>unreadCount := (unreadCount m)(U \<mapsto> 0)\<rparr>))"
proof -
  obtain msgs where "paginate (case page of None \<Rightarrow> 1 | Some p \<Rightarrow> p)
      (case limit of None \<Rightarrow> 50 | Some l \<Rightarrow> l)
      (sort_key (\<lambda>c. - int (createdAt c))
         (filter (\<lambda>c. matchId c = mid \<and> \<not> isDeleted c) (chatColl s))) = Some msgs"
    using paginate_defined [OF validatePagination_page [OF assms(6)]] by blast
  then show ?thesis
    using assms(1-5)
    by (simp add: listMessages_handler_def Let_def resetUnread_def)
qed

text \<open>
  C5 fails on the code. A and B are matched in \<open>db_matched\<close>, and in \<open>db_chatting\<close> A
  has one unread message of B. B's request to send a message and A's request to list
  the messages are both answered with 400 \<open>Validation failed\<close>, and the store stays as
  it is: no counter moves, \<open>lastMessageAt\<close> keeps its value and the message stays
  unread.
\<close>

theorem chat_routes_refuse:
  "send db_matched 3 (Canonical (MatchId 0)) (UserId 1) ''hi'' (Some ''text'') =
     (Inl (BadRequest ''Validation failed''), db_matched) \<and>
   unreadOf (matchColl db_matched ! 0) (UserId 0) = 0 \<and>
   lastMessageAt (matchColl db_matched ! 0) = 2 \<and>
   listMessages db_chatting 4 (Canonical (MatchId 0)) (UserId 0) (Some 1) (Some 50) =
     (Inl (BadRequest ''Validation failed''), db_chatting) \<and>
   unreadOf (matchColl db_chatting ! 0) (UserId 0) = 1 \<and>
   isRead (chatColl db_chatting ! 0) = False"
  by (simp add: send_refused listMessages_refused validationFailed_def db_matched_def
        db_chatting_def unreadOf_def)

section \<open>The unmatch route\<close>

lemma unmatch_handler_result:
  assumes "castObjectId m = Some mid"
    and "Match_findById s mid = Some mtch"
    and "match_pre_save mtch" and "hasUser mtch U"
    and "getOtherUser mtch U = Some other"
  shows "unmatch_handler s U m =
     (Inr (), Match_update
        (User_update
           (User_update s U (\<lambda>u. u\<lparr>matches := filter (\<lambda>x. x \<noteq> other) (matches u)\<rparr>))
           other (\<lambda>u. u\<lparr>matches := filter (\<lambda>x. x \<noteq> U) (matches u)\<rparr>))
        mid (\<lambda>m. m\<lparr>m_isActive := False\<rparr>))"
  using assms by (simp add: unmatch_handler_def Let_def)

lemma send_handler_inactive:
  assumes "castObjectId m = Some mid"
    and "Match_findById s mid = Some mtch" and "\<not> m_isActive mtch"
  shows "send_handler s now m u msg ty = (Inl (NotFound ''Match not found''), s)"
  using assms by (simp add: send_handler_def)

text \<open>
  C6 fails on the code. In \<open>db_matched\<close> participant A asks to unmatch the match with
  B: the answer is 400 \<open>Validation failed\<close>, the match stays active and each stays in
  the other's matches. C, who is no participant, gets the same 400, not 403. A later
  send on the match gets 400 as well, not 404 or 403.
\<close>

theorem unmatch_route_refuses:
  "unmatch db_matched (UserId 0) (Canonical (MatchId 0)) =
     (Inl (BadRequest ''Validation failed''), db_matched) \<and>
   m_isActive (matchColl db_matched ! 0) \<and>
   matches (userColl db_matched ! 0) = [UserId 1] \<and>
   matches (userColl db_matched ! 1) = [UserId 0] \<and>
   unmatch db_matched (UserId 2) (Canonical (MatchId 0)) =
     (Inl (BadRequest ''Validation failed''), db_matched) \<and>
   send (snd (unmatch db_matched (UserId 0) (Canonical (MatchId 0)))) 5
        (Canonical (MatchId 0)) (UserId 1) ''hi'' None =
     (Inl (BadRequest ''Validation failed''), db_matched)"
  by (simp add: unmatch_refused send_refused validationFailed_def db_matched_def)

section \<open>What block writes\<close>

lemma User_update_blockedBy:
  assumes "\<And>u. blockedBy (f u) = blockedBy u"
  shows "map blockedBy (userColl (User_update s i f)) = map blockedBy (userColl s)"
  using assms by (cases i) (auto simp: map_update list_update_same_conv)

lemma like_blockedBy:
  "map blockedBy (userColl (snd (like s now A t))) = map blockedBy (userColl s)"
  by (auto simp: like_def like_handler_def Match_create_def Let_def User_update_blockedBy
        split: option.splits)

lemma superLike_state: "snd (superLike s now U T) = s"
  by (simp add: superLike_def superLike_handler_def split: option.splits)

lemma superLike_fails: "\<exists>e. superLike s now A t = (Inl e, s)"
  by (simp add: superLike_def superLike_handler_def split: option.splits)

lemma blockedBy_never_written:
  "map blockedBy (userColl (run s trs)) = map blockedBy (userColl s)"
proof (induction trs arbitrary: s)
  case Nil
  show ?case by simp
next
  case (Cons tr trs)
  have "map blockedBy (userColl (dispatch s now r)) = map blockedBy (userColl s)" for now r
    by (cases r)
       (auto simp: like_blockedBy send_refused listMessages_refused markRead_refused
          deleteMessage_refused unmatch_refused superLike_state User_update_blockedBy
          dislike_def dislike_handler_def block_def unblock_def Let_def
          split: option.splits)
  then have "map blockedBy (userColl (handle s tr)) = map blockedBy (userColl s)"
    by (simp add: handle_def)
  with Cons.IH [of "handle s tr"] show ?case by simp
qed

text \<open>
  C4 fails on the code. A blocks B in the state of three new profiles: B is in A's
  blocked list and A is not in B's blockedBy list. No request handler writes blockedBy
  (\<open>blockedBy_never_written\<close>).
\<close>

theorem block_leaves_blockedBy:
  "case block db_start (UserId 0) (Canonical (UserId 1)) of (res, s') \<Rightarrow>
     res = Inr () \<and>
     blocked (userColl s' ! 0) = [UserId 1] \<and>
     blockedBy (userColl s' ! 1) = []"
  by (simp add: block_def db_start_def profile_def Let_def)

text \<open>
  What block does when the URL spells the target as \<open>toString\<close> does: it writes the
  caller's document only, the target is in blocked once more than before at most, and
  is gone from likes and matches; a second such block changes nothing.
\<close>

lemma block_canonical_result:
  assumes "A \<noteq> B"
    and "User_findById s A = Some ua"
    and "User_findById s B = Some ub"
  shows "block s A (Canonical B) = (Inr (), User_update s A (\<lambda>u. u\<lparr>
        blocked := (if B \<in> set (blocked ua) then blocked ua else blocked ua @ [B]),
        likes := filter (\<lambda>x. x \<noteq> B) (likes ua),
        matches := filter (\<lambda>x. x \<noteq> B) (matches ua)\<rparr>))"
  using assms by (simp add: block_def Let_def)

lemma block_writes_caller_only:
  "matchColl (snd (block s A t)) = matchColl s \<and>
   chatColl (snd (block s A t)) = chatColl s \<and>
   (\<forall>v. v \<noteq> A \<longrightarrow> User_findById (snd (block s A t)) v = User_findById s v)"
  by (auto simp: block_def Let_def split: option.splits)

text \<open>
  C10 fails on the code. A and B are matched in \<open>db_matched\<close>, so B is in A's likes and
  matches. A blocks B with B's id written in upper case in the URL: the answer is
  success, B is put into A's blocked list, and B stays in A's likes and matches. The
  same request once more puts B into the blocked list a second time.
\<close>

theorem block_respelled_keeps_likes:
  "case block db_matched (UserId 0) (Respelled (UserId 1)) of (res, s') \<Rightarrow>
     res = Inr () \<and>
     blocked (userColl s' ! 0) = [UserId 1] \<and>
     likes (userColl s' ! 0) = [UserId 1] \<and>
     matches (userColl s' ! 0) = [UserId 1] \<and>
     blocked (userColl (snd (block s' (UserId 0) (Respelled (UserId 1)))) ! 0) =
       [UserId 1, UserId 1]"
  by (simp add: block_def db_matched_def profile_def Let_def)

section \<open>Unread count and super-like\<close>

lemma unreadCountHandler_fails: "unreadCountHandler s u = Inl ServerError"
  by (simp add: unreadCountHandler_def chats_module_bindings_def)

text \<open>
  C7 fails on the code. In \<open>db_chatting\<close> user A has one active match, in which B has
  sent one message that A has not read. The handler answers 500. Its body, were
  \<open>User\<close> bound, would look for messages whose \<open>matchId\<close> is the id of a matched
  user, and answer with an empty mapping.
\<close>

theorem unreadCount_fails:
  "unreadCountHandler db_chatting (UserId 0) = Inl ServerError \<and>
   unreadCount_body db_chatting (UserId 0) = Inr \<lparr>unreadCounts = [], totalUnread = 0\<rparr> \<and>
   length (filter (\<lambda>c. matchId c = MatchId 0 \<and> sender c \<noteq> UserId 0 \<and>
                        \<not> isRead c \<and> \<not> isDeleted c) (chatColl db_chatting)) = 1"
  by (simp add: unreadCountHandler_def unreadCount_body_def chats_module_bindings_def
        db_chatting_def profile_def Let_def)

text \<open>
  C8 fails on the code. A is a premium member and B an active profile that A has not
  liked: \<open>like\<close> answers \<open>isMatch = False\<close> and puts B into A's likes, \<open>superLike\<close>
  answers 500 and leaves the state as it is. \<open>superLike\<close> never succeeds
  (\<open>superLike_fails\<close>).
\<close>

theorem superLike_differs_from_like:
  "isPremiumActive (userColl db_premium ! 0) 5 \<and>
   superLike db_premium 5 (UserId 0) (Canonical (UserId 1)) = (Inl ServerError, db_premium) \<and>
   fst (like db_premium 5 (UserId 0) (Canonical (UserId 1))) =
     Inr \<lparr>isMatch = False, r_match = None\<rparr> \<and>
   likes (userColl (snd (like db_premium 5 (UserId 0) (Canonical (UserId 1)))) ! 0) =
     [UserId 1] \<and>
   likes (userColl db_premium ! 0) = []"
  by (simp add: superLike_def superLike_handler_def like_def like_handler_def
        validateLikeDislike_def isPremiumActive_def db_premium_def profile_def Let_def)

theorem superLike_differs_from_like_witness:
  "fst (superLike db_premium 5 (UserId 0) (Canonical (UserId 1))) \<noteq>
     fst (like db_premium 5 (UserId 0) (Canonical (UserId 1))) \<and>
   snd (superLike db_premium 5 (UserId 0) (Canonical (UserId 1))) \<noteq>
     snd (like db_premium 5 (UserId 0) (Canonical (UserId 1)))"
proof -
  have "userColl (snd (superLike db_premium 5 (UserId 0) (Canonical (UserId 1)))) \<noteq>
        userColl (snd (like db_premium 5 (UserId 0) (Canonical (UserId 1))))"
    using superLike_differs_from_like by auto
  then show ?thesis
    using superLike_differs_from_like by auto
qed


section \<open>One active match for each pair\<close>






lemma has_liked_User_update:
  "has_liked (User_update s i f) a b =
     (case User_findById s a of
        None \<Rightarrow> False
      | Some u \<Rightarrow> b \<in> set (likes (if a = i then f u else u)))"
  by (auto simp: has_liked_def split: option.splits)


















section \<open>Concurrent likes create at most one match\<close>

lemma funpow_6: "(f ^^ 6) x = f (f (f (f (f (f x)))))"
  by (simp add: numeral_eq_Suc)

text \<open>
  When nothing else has written the documents since they were loaded, appending to the
  stored arrays and writing the loaded arrays with the new element are the same.
\<close>

lemma like_save_eq:
  assumes "User_findById s A = Some ua"
  shows "User_update s A (\<lambda>u. u\<lparr>likes := likes u @ [B]\<rparr>) =
         User_update s A (\<lambda>u. u\<lparr>likes := likes ua @ [B]\<rparr>)"
  using assms by (cases A) (auto split: if_splits)

lemma like_saves_eq:
  assumes "User_findById s A = Some ua" and "User_findById s B = Some ub" and "A \<noteq> B"
  shows "User_update
           (User_update (User_update s A (\<lambda>u. u\<lparr>likes := likes ua @ [B]\<rparr>)) A
              (\<lambda>u. u\<lparr>matches := matches u @ [B]\<rparr>))
           B (\<lambda>u. u\<lparr>matches := matches u @ [A]\<rparr>) =
         User_update
           (User_update (User_update s A (\<lambda>u. u\<lparr>likes := likes ua @ [B]\<rparr>)) A
              (\<lambda>u. u\<lparr>matches := matches ua @ [B]\<rparr>))
           B (\<lambda>u. u\<lparr>matches := matches ub @ [A]\<rparr>)"
  using assms by (cases A; cases B) (auto simp: nth_list_update split: if_splits)

lemma like_alone_is_like:
  "like_alone s now A t = (Some (fst (like s now A t)), snd (like s now A t))"
  by (cases t)
     (auto simp: like_alone_def funpow_6 like_step_def like_start_def refuse_def finish_def
        like_def like_handler_def validateLikeDislike_def Match_create_def Let_def
        match_pre_save_def like_save_eq like_saves_eq
        split: option.splits if_splits)


lemma has_liked_matchColl [simp]:
  "has_liked (s\<lparr>matchColl := ms\<rparr>) a b = has_liked s a b"
  by (simp add: has_liked_def)


lemma has_liked_matches_push [simp]:
  "has_liked (User_update s i (\<lambda>u. u\<lparr>matches := matches u @ [x]\<rparr>)) a b = has_liked s a b"
  by (simp add: has_liked_User_update has_liked_def split: option.splits)




lemma unsaved_simps [simp]:
  "unsaved (refuse p e)"
  "\<not> unsaved (finish p r)"
  "unsaved (p\<lparr>lp_pc := c\<rparr>) = (c \<in> {AtStart, HasTarget, HasCurrent, Refused})"
  "unsaved (p\<lparr>lp_targetUser := t\<rparr>) = unsaved p"
  "unsaved (p\<lparr>lp_currentUser := t\<rparr>) = unsaved p"
  "unsaved (p\<lparr>lp_match := m\<rparr>) = unsaved p"
  by (simp_all add: unsaved_def refuse_def finish_def)

lemma sees_like_simps [simp]:
  "sees_like (refuse p e) = sees_like p"
  "sees_like (finish p r) = sees_like p"
  "sees_like (p\<lparr>lp_pc := c\<rparr>) = sees_like p"
  "sees_like (p\<lparr>lp_currentUser := t\<rparr>) = sees_like p"
  "sees_like (p\<lparr>lp_match := m\<rparr>) = sees_like p"
  by (simp_all add: sees_like_def refuse_def finish_def split: option.splits)

lemma sees_like_loaded [simp]:
  "sees_like (p\<lparr>lp_targetUser := User_findById s B\<rparr>) = has_liked s B (lp_currentUserId p)"
  by (simp add: sees_like_def has_liked_def split: option.splits)

lemma proc_fields [simp]:
  "lp_currentUserId (refuse p e) = lp_currentUserId p"
  "lp_currentUserId (finish p r) = lp_currentUserId p"
  "lp_targetUserId (refuse p e) = lp_targetUserId p"
  "lp_targetUserId (finish p r) = lp_targetUserId p"
  "lp_match (refuse p e) = lp_match p"
  "lp_match (finish p r) = lp_match p"
  "lp_pc (refuse p e) = Refused"
  "lp_pc (finish p r) = Done"
  by (simp_all add: refuse_def finish_def)




















end
